theory Spec2Isabelle
  imports Main
begin

section \<open>Values shared by the two UI implementations\<close>

text \<open>
  A Go \<open>error\<close> is modelled by the value \<open>errors.New\<close> and \<open>fmt.Errorf\<close> build: a
  message, read back by the method \<open>Error()\<close>. The nil error is \<open>None\<close> of
  \<open>error option\<close>.
\<close>

datatype error = errorString (Error: string)

definition errors_New :: "string \<Rightarrow> error" where
  "errors_New text = errorString text"

text \<open>
  A call either returns its results or panics with a message; the panic is a value of the
  model, not an unspecified result.
\<close>

datatype 'a outcome = Returns 'a | Panics string

text \<open>
  Modelled from the spec: the declarations of \<open>TextOpts\<close> and \<open>ChoiceOpts\<close> are not part of
  the source file. The fields are the ones the source reads: \<open>NonInteractiveUI\<close> reads
  \<open>Default\<close> and \<open>ValidateFunc\<close>, \<open>WriterUI\<close> reads \<open>Label\<close>, \<open>DefaultValue\<close> and
  \<open>Choices\<close>. A nil \<open>ValidateFunc\<close> is \<open>None\<close>; a validator maps the candidate default
  to (is-valid, error). The Go \<open>int\<close> of a choice default is an \<open>int\<close> here: the source does
  no arithmetic on it, so no wrap-around can occur.
\<close>

record TextOpts =
  Label :: string
  Default :: string
  DefaultValue :: string
  ValidateFunc :: "(string \<Rightarrow> bool \<times> error option) option"

record ChoiceOpts =
  Label :: string
  Default :: int
  DefaultValue :: int
  Choices :: "string list"
  ValidateFunc :: "(int \<Rightarrow> bool \<times> error option) option"

section \<open>The instances\<close>

text \<open>
  An \<open>io.Writer\<close> and an \<open>ExternalLogger\<close> are held by reference; two fields of a
  \<open>WriterUI\<close> may name the same writer. \<open>NewWriterUI\<close> stores the logger it is given
  without a check, so the logger of an instance may be nil, which is \<open>None\<close>. The writers
  are non-nil: the properties below are about writes that reach a writer. Every call on a
  collaborator is taken to return.
\<close>

type_synonym writer = nat
type_synonym logger = nat

record WriterUI =
  outWriter :: writer
  errWriter :: writer
  logger :: "logger option"
  logTag :: string

text \<open>
  The interface \<open>UI\<close> has the two implementations of the source; a
  \<open>NonInteractiveUI\<close> wraps any \<open>UI\<close>, also another \<open>NonInteractiveUI\<close>.
\<close>

datatype UI = UI_WriterUI WriterUI | UI_NonInteractiveUI NonInteractiveUI
  and NonInteractiveUI = NonInteractiveUI (parent: UI)

definition NewWriterUI :: "writer \<Rightarrow> writer \<Rightarrow> logger option \<Rightarrow> WriterUI" where
  "NewWriterUI out err lg =
     \<lparr>outWriter = out, errWriter = err, logger = lg, logTag = ''ui''\<rparr>"

definition NewNonInteractiveUI :: "UI \<Rightarrow> NonInteractiveUI" where
  "NewNonInteractiveUI p = NonInteractiveUI p"

section \<open>NonInteractiveUI: prompts answered from the defaults\<close>

definition NonInteractiveUI_AskForText ::
  "NonInteractiveUI \<Rightarrow> TextOpts \<Rightarrow> string \<times> error option" where
  "NonInteractiveUI_AskForText ui opts =
     (case TextOpts.ValidateFunc opts of
        Some validate \<Rightarrow>
          (let (isValid, err) = validate (TextOpts.Default opts)
           in if err \<noteq> None \<or> \<not> isValid then ('''', err)
              else (TextOpts.Default opts, None))
      | None \<Rightarrow> (TextOpts.Default opts, None))"

definition NonInteractiveUI_AskForChoice ::
  "NonInteractiveUI \<Rightarrow> ChoiceOpts \<Rightarrow> int \<times> error option" where
  "NonInteractiveUI_AskForChoice ui opts =
     (case ChoiceOpts.ValidateFunc opts of
        Some validate \<Rightarrow>
          (let (isValid, err) = validate (ChoiceOpts.Default opts)
           in if err \<noteq> None \<or> \<not> isValid then (0, err)
              else (ChoiceOpts.Default opts, None))
      | None \<Rightarrow> (ChoiceOpts.Default opts, None))"

definition NonInteractiveUI_AskForPassword ::
  "NonInteractiveUI \<Rightarrow> string \<Rightarrow> (string \<times> error option) outcome" where
  "NonInteractiveUI_AskForPassword ui label =
     Panics ''Cannot ask for password in non-interactive UI''"

definition NonInteractiveUI_AskForConfirmation :: "NonInteractiveUI \<Rightarrow> error option" where
  "NonInteractiveUI_AskForConfirmation ui = None"

definition NonInteractiveUI_IsInteractive :: "NonInteractiveUI \<Rightarrow> bool" where
  "NonInteractiveUI_IsInteractive ui = False"

section \<open>The world a WriterUI acts on\<close>

text \<open>
  The arguments of \<open>fmt.Sprintf\<close> and of the logger are values of several Go types. The
  type \<open>'t\<close> is the table type of the \<open>table\<close> package, which is not part of the source
  file.
\<close>

datatype 't val = VString string | VBytes string | VInt int | VError error | VTable 't

text \<open>One call of \<open>ExternalLogger.Error(tag, msg, args...)\<close>, as the logger receives it.\<close>

record 't log_entry =
  log_logger :: logger
  log_tag :: string
  log_msg :: string
  log_args :: "'t val list"

text \<open>
  \<open>interact.Choice\<close> and the interaction \<open>interact.NewInteraction(prompt, choices...)\<close>
  builds; \<open>target\<close> is the variable whose address \<open>Resolve\<close> receives, with the value it
  holds at the call.
\<close>

record Choice =
  Display :: string
  Value :: int

record Interaction =
  Prompt :: string
  Choices :: "Choice list"

datatype target = TString string | TInt int | TPassword string | TBool bool

text \<open>
  The observable state: the bytes every writer has accepted so far, the calls the logger
  has received, and the calls the prompt engine has received.
\<close>

record 't world =
  streams :: "writer \<Rightarrow> string"
  logged :: "'t log_entry list"
  asked :: "(Interaction \<times> target) list"

text \<open>
  What the source leaves to its collaborators is a parameter of the model, so that a
  theorem holds for every behaviour of theirs:
  \<^item> \<open>Sprintf\<close>: the formatting of \<open>fmt.Sprintf\<close>;
  \<^item> \<open>write_fault\<close>: whether a \<open>Write\<close> of the given bytes to the given writer fails in the
    given state, and if so after how many bytes and with which error;
  \<^item> \<open>Table_Print\<close>: \<open>Table.Print(w)\<close> of the table package;
  \<^item> \<open>Resolve_string\<close>, \<open>Resolve_int\<close>, \<open>Resolve_Password\<close>, \<open>Resolve_bool\<close>: the answer of
    the prompt engine for a target of each type the source passes, as the error it
    returns and the value the target holds afterwards.
\<close>

record 't env =
  Sprintf :: "string \<Rightarrow> 't val list \<Rightarrow> string"
  write_fault :: "writer \<Rightarrow> string \<Rightarrow> 't world \<Rightarrow> (nat \<times> error) option"
  Table_Print :: "'t \<Rightarrow> writer \<Rightarrow> 't world \<Rightarrow> error option \<times> 't world"
  Resolve_string :: "Interaction \<Rightarrow> string \<Rightarrow> 't world \<Rightarrow> error option \<times> string"
  Resolve_int :: "Interaction \<Rightarrow> int \<Rightarrow> 't world \<Rightarrow> error option \<times> int"
  Resolve_Password :: "Interaction \<Rightarrow> string \<Rightarrow> 't world \<Rightarrow> error option \<times> string"
  Resolve_bool :: "Interaction \<Rightarrow> bool \<Rightarrow> 't world \<Rightarrow> error option \<times> bool"

text \<open>
  \<open>w.Write(p)\<close>: the writer accepts all of \<open>p\<close>, or a prefix of it and returns an error.
\<close>

definition Write ::
  "'t env \<Rightarrow> writer \<Rightarrow> string \<Rightarrow> 't world \<Rightarrow> (nat \<times> error option) \<times> 't world" where
  "Write env w p s =
     (case write_fault env w p s of
        None \<Rightarrow> ((length p, None), s\<lparr>streams := (streams s)(w := streams s w @ p)\<rparr>)
      | Some (n, e) \<Rightarrow>
          ((min n (length p), Some e),
           s\<lparr>streams := (streams s)(w := streams s w @ take n p)\<rparr>))"

text \<open>
  \<open>fmt.Fprint(w, text)\<close> with one string operand writes the string as it is, and
  \<open>fmt.Fprintln(w, text)\<close> writes it followed by a newline, each in one \<open>Write\<close>.
\<close>

definition Fprint ::
  "'t env \<Rightarrow> writer \<Rightarrow> string \<Rightarrow> 't world \<Rightarrow> (nat \<times> error option) \<times> 't world" where
  "Fprint env w text s = Write env w text s"

definition Fprintln ::
  "'t env \<Rightarrow> writer \<Rightarrow> string \<Rightarrow> 't world \<Rightarrow> (nat \<times> error option) \<times> 't world" where
  "Fprintln env w text s = Write env w (text @ [CHR 0x0A]) s"

text \<open>
  \<open>ui.logger.Error(tag, msg, args...)\<close>: a method call on a nil interface value panics
  with the runtime error of a nil dereference; otherwise the logger receives the call.
  An operation without results returns \<open>Returns ()\<close>; the state is returned beside the
  outcome, since what was written before a panic stays written.
\<close>

definition logger_Error ::
  "logger option \<Rightarrow> string \<Rightarrow> string \<Rightarrow> 't val list \<Rightarrow> 't world
     \<Rightarrow> unit outcome \<times> 't world" where
  "logger_Error lg tag msg args s =
     (case lg of
        None \<Rightarrow>
          (Panics ''runtime error: invalid memory address or nil pointer dereference'', s)
      | Some l \<Rightarrow>
          (Returns (),
           s\<lparr>logged := logged s @
              [\<lparr>log_logger = l, log_tag = tag, log_msg = msg, log_args = args\<rparr>]\<rparr>))"

text \<open>
  \<open>Resolve\<close> on an interaction: the engine receives the call, and answers with an error
  and the new value of the target.
\<close>

definition Resolve_at_string ::
  "'t env \<Rightarrow> Interaction \<Rightarrow> string \<Rightarrow> 't world \<Rightarrow> (error option \<times> string) \<times> 't world" where
  "Resolve_at_string env ia dst s =
     (Resolve_string env ia dst s, s\<lparr>asked := asked s @ [(ia, TString dst)]\<rparr>)"

definition Resolve_at_int ::
  "'t env \<Rightarrow> Interaction \<Rightarrow> int \<Rightarrow> 't world \<Rightarrow> (error option \<times> int) \<times> 't world" where
  "Resolve_at_int env ia dst s =
     (Resolve_int env ia dst s, s\<lparr>asked := asked s @ [(ia, TInt dst)]\<rparr>)"

definition Resolve_at_Password ::
  "'t env \<Rightarrow> Interaction \<Rightarrow> string \<Rightarrow> 't world \<Rightarrow> (error option \<times> string) \<times> 't world" where
  "Resolve_at_Password env ia dst s =
     (Resolve_Password env ia dst s, s\<lparr>asked := asked s @ [(ia, TPassword dst)]\<rparr>)"

definition Resolve_at_bool ::
  "'t env \<Rightarrow> Interaction \<Rightarrow> bool \<Rightarrow> 't world \<Rightarrow> (error option \<times> bool) \<times> 't world" where
  "Resolve_at_bool env ia dst s =
     (Resolve_bool env ia dst s, s\<lparr>asked := asked s @ [(ia, TBool dst)]\<rparr>)"

section \<open>WriterUI: output\<close>

definition WriterUI_ErrorLinef ::
  "'t env \<Rightarrow> WriterUI \<Rightarrow> string \<Rightarrow> 't val list \<Rightarrow> 't world \<Rightarrow> unit outcome \<times> 't world" where
  "WriterUI_ErrorLinef env ui pattern args s =
     (let message = Sprintf env pattern args;
          ((n, err), s') = Fprintln env (errWriter ui) message s
      in case err of
           Some e \<Rightarrow>
             logger_Error (logger ui) (logTag ui)
               ''UI.ErrorLinef failed (message='%s'): %s'' [VString message, VError e] s'
         | None \<Rightarrow> (Returns (), s'))"

definition WriterUI_PrintLinef ::
  "'t env \<Rightarrow> WriterUI \<Rightarrow> string \<Rightarrow> 't val list \<Rightarrow> 't world \<Rightarrow> unit outcome \<times> 't world" where
  "WriterUI_PrintLinef env ui pattern args s =
     (let message = Sprintf env pattern args;
          ((n, err), s') = Fprintln env (outWriter ui) message s
      in case err of
           Some e \<Rightarrow>
             logger_Error (logger ui) (logTag ui)
               ''UI.PrintLinef failed (message='%s'): %s'' [VString message, VError e] s'
         | None \<Rightarrow> (Returns (), s'))"

definition WriterUI_BeginLinef ::
  "'t env \<Rightarrow> WriterUI \<Rightarrow> string \<Rightarrow> 't val list \<Rightarrow> 't world \<Rightarrow> unit outcome \<times> 't world" where
  "WriterUI_BeginLinef env ui pattern args s =
     (let message = Sprintf env pattern args;
          ((n, err), s') = Fprint env (outWriter ui) message s
      in case err of
           Some e \<Rightarrow>
             logger_Error (logger ui) (logTag ui)
               ''UI.BeginLinef failed (message='%s'): %s'' [VString message, VError e] s'
         | None \<Rightarrow> (Returns (), s'))"

definition WriterUI_EndLinef ::
  "'t env \<Rightarrow> WriterUI \<Rightarrow> string \<Rightarrow> 't val list \<Rightarrow> 't world \<Rightarrow> unit outcome \<times> 't world" where
  "WriterUI_EndLinef env ui pattern args s =
     (let message = Sprintf env pattern args;
          ((n, err), s') = Fprintln env (outWriter ui) message s
      in case err of
           Some e \<Rightarrow>
             logger_Error (logger ui) (logTag ui)
               ''UI.EndLinef failed (message='%s'): %s'' [VString message, VError e] s'
         | None \<Rightarrow> (Returns (), s'))"

definition WriterUI_PrintBlock :: "'t env \<Rightarrow> WriterUI \<Rightarrow> string \<Rightarrow> 't world \<Rightarrow> unit outcome \<times> 't world" where
  "WriterUI_PrintBlock env ui block s =
     (let ((n, err), s') = Write env (outWriter ui) block s
      in case err of
           Some e \<Rightarrow>
             logger_Error (logger ui) (logTag ui)
               ''UI.PrintBlock failed (message='%s'): %s'' [VBytes block, VError e] s'
         | None \<Rightarrow> (Returns (), s'))"

definition WriterUI_PrintErrorBlock ::
  "'t env \<Rightarrow> WriterUI \<Rightarrow> string \<Rightarrow> 't world \<Rightarrow> unit outcome \<times> 't world" where
  "WriterUI_PrintErrorBlock env ui block s =
     (let ((n, err), s') = Fprint env (outWriter ui) block s
      in case err of
           Some e \<Rightarrow>
             logger_Error (logger ui) (logTag ui)
               ''UI.PrintErrorBlock failed (message='%s'): %s'' [VString block, VError e] s'
         | None \<Rightarrow> (Returns (), s'))"

definition WriterUI_PrintTable :: "'t env \<Rightarrow> WriterUI \<Rightarrow> 't \<Rightarrow> 't world \<Rightarrow> unit outcome \<times> 't world" where
  "WriterUI_PrintTable env ui table s =
     (let (err, s') = Table_Print env table (outWriter ui) s
      in case err of
           Some e \<Rightarrow>
             logger_Error (logger ui) (logTag ui) ''UI.PrintTable failed: %s'' [VError e] s'
         | None \<Rightarrow> (Returns (), s'))"

section \<open>WriterUI: prompts\<close>

text \<open>
  \<open>strconv.Itoa\<close>: the decimal digits of the magnitude, most significant first, taken
  from the digit table by repeated division by ten, with a minus sign for a negative
  number.
\<close>

definition digits :: string where
  "digits = ''0123456789''"

fun formatBits :: "nat \<Rightarrow> string \<Rightarrow> string" where
  "formatBits u a =
     (if 10 \<le> u then formatBits (u div 10) (digits ! (u mod 10) # a) else digits ! u # a)"

definition Itoa :: "int \<Rightarrow> string" where
  "Itoa i = (if i < 0 then CHR ''-'' # formatBits (nat (- i)) [] else formatBits (nat i) [])"

text \<open>
  The verbs \<open>fmt.Errorf\<close> meets in the source: \<open>%d\<close> of an \<open>int\<close> is its decimal form,
  \<open>%s\<close> of an error is its message, and \<open>%s\<close> of a slice of strings is the strings
  separated by one space, in square brackets.
\<close>

fun join_space :: "string list \<Rightarrow> string" where
  "join_space [] = []"
| "join_space [x] = x"
| "join_space (x # y # ys) = x @ CHR '' '' # join_space (y # ys)"

definition fmt_strings :: "string list \<Rightarrow> string" where
  "fmt_strings xs = CHR ''['' # join_space xs @ '']''"

definition WriterUI_AskForText ::
  "'t env \<Rightarrow> WriterUI \<Rightarrow> TextOpts \<Rightarrow> 't world \<Rightarrow> (string \<times> error option) \<times> 't world" where
  "WriterUI_AskForText env ui opts s =
     (let ((err, v), s') =
            Resolve_at_string env \<lparr>Prompt = TextOpts.Label opts, Choices = []\<rparr>
              (TextOpts.DefaultValue opts) s
      in case err of
           Some e \<Rightarrow> (('''', Some (errorString (''Asking for text: '' @ Error e))), s')
         | None \<Rightarrow> ((v, None), s'))"

text \<open>
  The loop of \<open>AskForChoice\<close> over \<open>opts.Choices\<close>, from position \<open>i\<close> on: it sets the flag
  when a choice equals the decimal form of the default, and appends the choice with its
  position as value.
\<close>

fun AskForChoice_loop ::
  "string \<Rightarrow> nat \<Rightarrow> string list \<Rightarrow> Choice list \<times> bool \<Rightarrow> Choice list \<times> bool" where
  "AskForChoice_loop d i [] (choices, defaultMatchingWithChoices) =
     (choices, defaultMatchingWithChoices)"
| "AskForChoice_loop d i (opt # rest) (choices, defaultMatchingWithChoices) =
     AskForChoice_loop d (Suc i) rest
       (choices @ [\<lparr>Display = opt, Value = int i\<rparr>],
        if opt = d then True else defaultMatchingWithChoices)"

definition WriterUI_AskForChoice ::
  "'t env \<Rightarrow> WriterUI \<Rightarrow> ChoiceOpts \<Rightarrow> 't world \<Rightarrow> (int \<times> error option) \<times> 't world" where
  "WriterUI_AskForChoice env ui opts s =
     (let (choices, defaultMatchingWithChoices) =
            AskForChoice_loop (Itoa (ChoiceOpts.DefaultValue opts)) 0 (ChoiceOpts.Choices opts)
              ([], False)
      in if \<not> defaultMatchingWithChoices
         then ((0, Some (errorString
                  (''Default value: '' @ Itoa (ChoiceOpts.DefaultValue opts)
                   @ '' should match with one of the choices: ''
                   @ fmt_strings (ChoiceOpts.Choices opts)))), s)
         else
           (let ((err, v), s') =
                  Resolve_at_int env \<lparr>Prompt = ChoiceOpts.Label opts, Choices = choices\<rparr>
                    (ChoiceOpts.DefaultValue opts) s
            in case err of
                 Some e \<Rightarrow> ((0, Some (errorString (''Asking for choice: '' @ Error e))), s')
               | None \<Rightarrow> ((v, None), s')))"

definition WriterUI_AskForPassword ::
  "'t env \<Rightarrow> WriterUI \<Rightarrow> string \<Rightarrow> 't world \<Rightarrow> (string \<times> error option) \<times> 't world" where
  "WriterUI_AskForPassword env ui label s =
     (let ((err, password), s') =
            Resolve_at_Password env \<lparr>Prompt = label, Choices = []\<rparr> '''' s
      in case err of
           Some e \<Rightarrow> (('''', Some (errorString (''Asking for password: '' @ Error e))), s')
         | None \<Rightarrow> ((password, None), s'))"

definition WriterUI_AskForConfirmation ::
  "'t env \<Rightarrow> WriterUI \<Rightarrow> 't world \<Rightarrow> error option \<times> 't world" where
  "WriterUI_AskForConfirmation env ui s =
     (let ((err, falseByDefault), s') =
            Resolve_at_bool env \<lparr>Prompt = ''Continue?'', Choices = []\<rparr> False s
      in case err of
           Some e \<Rightarrow> (Some (errorString (''Asking for confirmation: '' @ Error e)), s')
         | None \<Rightarrow>
             if falseByDefault = False then (Some (errors_New ''Stopped''), s')
             else (None, s'))"

definition WriterUI_IsInteractive :: "WriterUI \<Rightarrow> bool" where
  "WriterUI_IsInteractive ui = True"

section \<open>Example collaborators and inputs\<close>

text \<open>
  Concrete collaborators on which the model is evaluated. With \<open>plain_env\<close> every write
  succeeds, the table prints nothing, and the user accepts every prompt as it stands, so
  that each target keeps its value; \<open>fmt.Sprintf\<close> is only applied to patterns without
  verbs there, which it returns as they are. With \<open>broken_env\<close> every write and the
  table's \<open>Print\<close> fail with the same error before a byte is written. Tables are lists of
  rows in the examples.
\<close>

definition plain_env :: "string list list env" where
  "plain_env =
     \<lparr>Sprintf = (\<lambda>pattern args. pattern),
      write_fault = (\<lambda>w p s. None),
      Table_Print = (\<lambda>table w s. (None, s)),
      Resolve_string = (\<lambda>ia dst s. (None, dst)),
      Resolve_int = (\<lambda>ia dst s. (None, dst)),
      Resolve_Password = (\<lambda>ia dst s. (None, dst)),
      Resolve_bool = (\<lambda>ia dst s. (None, dst))\<rparr>"

definition broken_env :: "string list list env" where
  "broken_env =
     plain_env
       \<lparr>write_fault := (\<lambda>w p s. Some (0, errorString ''closed pipe'')),
        Table_Print := (\<lambda>table w s. (Some (errorString ''closed pipe''), s))\<rparr>"

definition empty_world :: "string list list world" where
  "empty_world = \<lparr>streams = (\<lambda>w. []), logged = [], asked = []\<rparr>"

text \<open>Validators: one that rejects every default without an error, one that rejects it
  with an error, and one that accepts it.\<close>

definition rejects_silently :: "'a \<Rightarrow> bool \<times> error option" where
  "rejects_silently v = (False, None)"

definition rejects_with_error :: "'a \<Rightarrow> bool \<times> error option" where
  "rejects_with_error v = (False, Some (errorString ''not allowed''))"

definition accepts :: "'a \<Rightarrow> bool \<times> error option" where
  "accepts v = (True, None)"

section \<open>Properties of NonInteractiveUI\<close>

text \<open>
  Claim C1, evaluated on the code. The claim asks for a non-nil error whenever the
  validator rejects the default. With the default \<open>x\<close> and a validator that answers
  (invalid, nil), \<open>AskForText\<close> takes the failure return, handing back the empty string
  in place of the default, but the error it returns is the validator's nil; \<open>AskForChoice\<close>
  does the same with index 0 in place of the default 3.
\<close>

theorem NonInteractiveUI_invalid_default_returns_nil_error:
  "rejects_silently ''x'' = (False, None)
   \<and> NonInteractiveUI_AskForText (NewNonInteractiveUI (UI_WriterUI (NewWriterUI 1 2 (Some 0))))
     \<lparr>TextOpts.Label = ''name'', Default = ''x'', DefaultValue = '''',
      ValidateFunc = Some rejects_silently\<rparr> = ('''', None)
   \<and> NonInteractiveUI_AskForChoice (NewNonInteractiveUI (UI_WriterUI (NewWriterUI 1 2 (Some 0))))
     \<lparr>ChoiceOpts.Label = ''pick'', Default = 3, DefaultValue = 0, Choices = [],
      ValidateFunc = Some rejects_silently\<rparr> = (0, None)"
  by (simp add: NonInteractiveUI_AskForText_def NonInteractiveUI_AskForChoice_def
      rejects_silently_def)

text \<open>The same evaluation, read off the error component alone.\<close>

theorem NonInteractiveUI_invalid_default_nil_error_witness:
  "snd (NonInteractiveUI_AskForText (NewNonInteractiveUI (UI_WriterUI (NewWriterUI 1 2 (Some 0))))
     \<lparr>TextOpts.Label = ''name'', Default = ''x'', DefaultValue = '''',
      ValidateFunc = Some rejects_silently\<rparr>) = None
   \<and> snd (NonInteractiveUI_AskForChoice (NewNonInteractiveUI (UI_WriterUI (NewWriterUI 1 2 (Some 0))))
     \<lparr>ChoiceOpts.Label = ''pick'', Default = 3, DefaultValue = 0, Choices = [],
      ValidateFunc = Some rejects_silently\<rparr>) = None"
  using NonInteractiveUI_invalid_default_returns_nil_error by simp

text \<open>
  Claim C2. When the options carry a validator and the validator, applied to the default,
  reports invalid or returns a non-nil error, \<open>AskForText\<close> returns the empty string
  together with exactly the validator's error, and \<open>AskForChoice\<close> returns 0 together with
  exactly the validator's error. In particular an invalid default with a nil error gives
  the pair of the zero value and nil.
\<close>

theorem NonInteractiveUI_rejected_default_returns_validator_error:
  "(TextOpts.ValidateFunc topts = Some tv \<and> tv (TextOpts.Default topts) = (tvalid, terr)
      \<and> (terr \<noteq> None \<or> \<not> tvalid)
      \<longrightarrow> NonInteractiveUI_AskForText ui topts = ('''', terr))
   \<and> (ChoiceOpts.ValidateFunc copts = Some cv \<and> cv (ChoiceOpts.Default copts) = (cvalid, cerr)
      \<and> (cerr \<noteq> None \<or> \<not> cvalid)
      \<longrightarrow> NonInteractiveUI_AskForChoice ui copts = (0, cerr))"
  by (simp add: NonInteractiveUI_AskForText_def NonInteractiveUI_AskForChoice_def)

theorem NonInteractiveUI_rejected_default_witness:
  "TextOpts.ValidateFunc
      \<lparr>TextOpts.Label = ''name'', Default = ''x'', DefaultValue = '''',
       ValidateFunc = Some rejects_with_error\<rparr> = Some rejects_with_error
   \<and> rejects_with_error ''x'' = (False, Some (errorString ''not allowed''))
   \<and> NonInteractiveUI_AskForText (NewNonInteractiveUI (UI_WriterUI (NewWriterUI 1 2 (Some 0))))
      \<lparr>TextOpts.Label = ''name'', Default = ''x'', DefaultValue = '''',
       ValidateFunc = Some rejects_with_error\<rparr> = ('''', Some (errorString ''not allowed''))
   \<and> ChoiceOpts.ValidateFunc
      \<lparr>ChoiceOpts.Label = ''pick'', Default = 3, DefaultValue = 0, Choices = [],
       ValidateFunc = Some rejects_silently\<rparr> = Some rejects_silently
   \<and> rejects_silently (3::int) = (False, None)
   \<and> NonInteractiveUI_AskForChoice (NewNonInteractiveUI (UI_WriterUI (NewWriterUI 1 2 (Some 0))))
      \<lparr>ChoiceOpts.Label = ''pick'', Default = 3, DefaultValue = 0, Choices = [],
       ValidateFunc = Some rejects_silently\<rparr> = (0, None)"
proof -
  let ?t = "\<lparr>TextOpts.Label = ''name'', Default = ''x'', DefaultValue = '''',
             ValidateFunc = Some rejects_with_error\<rparr>"
  let ?c = "\<lparr>ChoiceOpts.Label = ''pick'', Default = 3, DefaultValue = 0, Choices = [],
             ValidateFunc = Some rejects_silently\<rparr>"
  have t: "rejects_with_error (TextOpts.Default ?t) = (False, Some (errorString ''not allowed''))"
    by (simp add: rejects_with_error_def)
  have c: "rejects_silently (ChoiceOpts.Default ?c) = (False, None)"
    by (simp add: rejects_silently_def)
  from t c
    NonInteractiveUI_rejected_default_returns_validator_error
      [where topts = ?t and tv = rejects_with_error and tvalid = False
         and terr = "Some (errorString ''not allowed'')"
         and copts = ?c and cv = rejects_silently and cvalid = False and cerr = None
         and ui = "NewNonInteractiveUI (UI_WriterUI (NewWriterUI 1 2 (Some 0)))"]
  show ?thesis by simp
qed

text \<open>
  Claim C3. When the options carry no validator, or the validator applied to the default
  answers (valid, nil), \<open>AskForText\<close> returns the default text unchanged with a nil error
  and \<open>AskForChoice\<close> returns the default index unchanged with a nil error.
\<close>

theorem NonInteractiveUI_accepted_default_returned:
  "(TextOpts.ValidateFunc topts = None
      \<or> (\<exists>tv. TextOpts.ValidateFunc topts = Some tv
               \<and> tv (TextOpts.Default topts) = (True, None))
      \<longrightarrow> NonInteractiveUI_AskForText ui topts = (TextOpts.Default topts, None))
   \<and> (ChoiceOpts.ValidateFunc copts = None
      \<or> (\<exists>cv. ChoiceOpts.ValidateFunc copts = Some cv
               \<and> cv (ChoiceOpts.Default copts) = (True, None))
      \<longrightarrow> NonInteractiveUI_AskForChoice ui copts = (ChoiceOpts.Default copts, None))"
  by (auto simp add: NonInteractiveUI_AskForText_def NonInteractiveUI_AskForChoice_def)

theorem NonInteractiveUI_accepted_default_witness:
  "TextOpts.ValidateFunc
      \<lparr>TextOpts.Label = ''name'', Default = ''x'', DefaultValue = '''',
       ValidateFunc = None\<rparr> = None
   \<and> NonInteractiveUI_AskForText (NewNonInteractiveUI (UI_WriterUI (NewWriterUI 1 2 (Some 0))))
      \<lparr>TextOpts.Label = ''name'', Default = ''x'', DefaultValue = '''',
       ValidateFunc = None\<rparr> = (''x'', None)
   \<and> ChoiceOpts.ValidateFunc
      \<lparr>ChoiceOpts.Label = ''pick'', Default = 3, DefaultValue = 0, Choices = [],
       ValidateFunc = Some accepts\<rparr> = Some accepts
   \<and> accepts (3::int) = (True, None)
   \<and> NonInteractiveUI_AskForChoice (NewNonInteractiveUI (UI_WriterUI (NewWriterUI 1 2 (Some 0))))
      \<lparr>ChoiceOpts.Label = ''pick'', Default = 3, DefaultValue = 0, Choices = [],
       ValidateFunc = Some accepts\<rparr> = (3, None)"
proof -
  let ?t = "\<lparr>TextOpts.Label = ''name'', Default = ''x'', DefaultValue = '''',
             ValidateFunc = None\<rparr>"
  let ?c = "\<lparr>ChoiceOpts.Label = ''pick'', Default = 3, DefaultValue = 0, Choices = [],
             ValidateFunc = Some accepts\<rparr>"
  have t: "TextOpts.ValidateFunc ?t = None"
    by simp
  have a: "accepts (3::int) = (True, None)"
    by (simp add: accepts_def)
  then have c: "\<exists>cv. ChoiceOpts.ValidateFunc ?c = Some cv
                     \<and> cv (ChoiceOpts.Default ?c) = (True, None)"
    by simp
  from t c a
    NonInteractiveUI_accepted_default_returned
      [where topts = ?t and copts = ?c
         and ui = "NewNonInteractiveUI (UI_WriterUI (NewWriterUI 1 2 (Some 0)))"]
  show ?thesis by simp
qed

text \<open>
  Claim C5. For every label, \<open>NonInteractiveUI.AskForPassword\<close> panics: its outcome is the
  panic with the message of the source, and it is no normal return of a pair of secret
  and error.
\<close>

theorem NonInteractiveUI_AskForPassword_panics:
  "NonInteractiveUI_AskForPassword ui label =
     Panics ''Cannot ask for password in non-interactive UI''
   \<and> (\<forall>r. NonInteractiveUI_AskForPassword ui label \<noteq> Returns r)"
  by (simp add: NonInteractiveUI_AskForPassword_def)

text \<open>
  Claim C9. \<open>NonInteractiveUI.AskForConfirmation\<close> returns nil for every instance,
  whatever parent it wraps; the method reads no state, so no earlier call can change its
  answer.
\<close>

theorem NonInteractiveUI_AskForConfirmation_nil:
  "NonInteractiveUI_AskForConfirmation ui = None
   \<and> NonInteractiveUI_AskForConfirmation (NewNonInteractiveUI p) = None"
  by (simp add: NonInteractiveUI_AskForConfirmation_def)

section \<open>Properties of WriterUI: prompts\<close>

text \<open>
  Claim C6. Whatever the prompt engine answers to the confirmation prompt, which starts
  from the answer "no": when the engine succeeds and the resolved answer is not
  affirmative, \<open>AskForConfirmation\<close> returns the error \<open>Stopped\<close>; it returns nil exactly
  when the engine succeeds and the resolved answer is affirmative.
\<close>

theorem WriterUI_AskForConfirmation_stopped:
  "Resolve_bool env \<lparr>Prompt = ''Continue?'', Choices = []\<rparr> False s = (err, answer) \<Longrightarrow>
   (err = None \<and> \<not> answer \<longrightarrow>
      fst (WriterUI_AskForConfirmation env ui s) = Some (errors_New ''Stopped''))
   \<and> (fst (WriterUI_AskForConfirmation env ui s) = None \<longleftrightarrow> err = None \<and> answer)"
  by (auto simp add: WriterUI_AskForConfirmation_def Resolve_at_bool_def split: option.splits)

theorem WriterUI_AskForConfirmation_stopped_witness:
  "Resolve_bool plain_env \<lparr>Prompt = ''Continue?'', Choices = []\<rparr> False empty_world
     = (None, False)
   \<and> fst (WriterUI_AskForConfirmation plain_env (NewWriterUI 1 2 (Some 0)) empty_world)
     = Some (errorString ''Stopped'')"
proof -
  have h: "Resolve_bool plain_env \<lparr>Prompt = ''Continue?'', Choices = []\<rparr> False empty_world
     = (None, False)"
    by (simp add: plain_env_def)
  from h WriterUI_AskForConfirmation_stopped [OF h, of "NewWriterUI 1 2 (Some 0)"] show ?thesis
    by (simp add: errors_New_def)
qed

subsection \<open>The precondition check of AskForChoice\<close>

text \<open>
  The loop builds one choice for each label, valued with its position, and raises the
  flag exactly when some label is the decimal form of the default.
\<close>

lemma AskForChoice_loop_flag:
  "snd (AskForChoice_loop d i xs (cs, f)) = (f \<or> d \<in> set xs)"
  by (induction xs arbitrary: i cs f) auto

lemma AskForChoice_loop_choices:
  "fst (AskForChoice_loop d i xs (cs, f)) =
     cs @ map (\<lambda>(j, opt). \<lparr>Display = opt, Value = int j\<rparr>) (enumerate i xs)"
  by (induction xs arbitrary: i cs f) auto

lemma AskForChoice_loop_eq:
  "AskForChoice_loop d i xs (cs, f) =
     (cs @ map (\<lambda>(j, opt). \<lparr>Display = opt, Value = int j\<rparr>) (enumerate i xs),
      f \<or> d \<in> set xs)"
  using AskForChoice_loop_flag [of d i xs cs f] AskForChoice_loop_choices [of d i xs cs f]
  by (simp add: prod_eq_iff)

lemma Itoa_1: "Itoa 1 = ''1''"
  by (simp add: Itoa_def digits_def)

lemma Itoa_42: "Itoa 42 = ''42''"
  by (simp add: Itoa_def digits_def)

lemma Itoa_minus_7: "Itoa (- 7) = ''-7''"
  by (simp add: Itoa_def digits_def)

text \<open>
  Claim C4. When the decimal form of the default index equals no entry of the choices,
  \<open>WriterUI.AskForChoice\<close> returns index 0 with an error whose message names the default
  and lists the choices, and the state it returns is the state it was given: the prompt
  engine has received no call. With the choices \<open>a\<close>, \<open>b\<close>, \<open>c\<close> and the default index 1
  the call fails in this way, since the default is compared as the string \<open>1\<close> and not
  used as a position.
\<close>

theorem WriterUI_AskForChoice_rejects_unmatched_default:
  "(Itoa (ChoiceOpts.DefaultValue opts) \<notin> set (ChoiceOpts.Choices opts) \<longrightarrow>
      WriterUI_AskForChoice env ui opts s =
        ((0, Some (errorString
               (''Default value: '' @ Itoa (ChoiceOpts.DefaultValue opts)
                @ '' should match with one of the choices: ''
                @ fmt_strings (ChoiceOpts.Choices opts)))), s))
   \<and> WriterUI_AskForChoice env ui
        \<lparr>ChoiceOpts.Label = label, Default = dflt, DefaultValue = 1,
         Choices = [''a'', ''b'', ''c''], ValidateFunc = vf\<rparr> s =
        ((0, Some (errorString
               ''Default value: 1 should match with one of the choices: [a b c]'')), s)"
  by (simp add: WriterUI_AskForChoice_def AskForChoice_loop_eq Itoa_1 fmt_strings_def)

theorem WriterUI_AskForChoice_rejects_unmatched_default_witness:
  "Itoa (- 7) \<notin> set [''7'', ''x y'']
   \<and> WriterUI_AskForChoice plain_env (NewWriterUI 1 2 (Some 0))
        \<lparr>ChoiceOpts.Label = ''pick'', Default = 0, DefaultValue = - 7,
         Choices = [''7'', ''x y''], ValidateFunc = None\<rparr> empty_world =
        ((0, Some (errorString
               ''Default value: -7 should match with one of the choices: [7 x y]'')),
         empty_world)
   \<and> asked (snd (WriterUI_AskForChoice plain_env (NewWriterUI 1 2 (Some 0))
        \<lparr>ChoiceOpts.Label = ''pick'', Default = 0, DefaultValue = - 7,
         Choices = [''7'', ''x y''], ValidateFunc = None\<rparr> empty_world)) = []"
proof -
  let ?o = "\<lparr>ChoiceOpts.Label = ''pick'', Default = 0, DefaultValue = - 7,
         Choices = [''7'', ''x y''], ValidateFunc = None\<rparr>"
  have h: "Itoa (ChoiceOpts.DefaultValue ?o) \<notin> set (ChoiceOpts.Choices ?o)"
    by (simp add: Itoa_minus_7)
  from h WriterUI_AskForChoice_rejects_unmatched_default
           [where opts = ?o and env = plain_env and ui = "NewWriterUI 1 2 (Some 0)"
              and s = empty_world]
  show ?thesis
    by (simp add: Itoa_minus_7 fmt_strings_def empty_world_def)
qed

text \<open>
  Claim C10. The check of \<open>WriterUI.AskForChoice\<close> passes whenever some choice, at any
  position, equals the decimal form of the default: the call then goes on to the prompt
  engine, which receives the interaction with the default as its target. The check does
  not bound the default by the number of choices: with the single choice \<open>1\<close> and the
  default index 1, which is no position of a list of length one, the engine is asked.
\<close>

theorem WriterUI_AskForChoice_default_not_bounded:
  "(Itoa (ChoiceOpts.DefaultValue opts) \<in> set (ChoiceOpts.Choices opts) \<longrightarrow>
      asked (snd (WriterUI_AskForChoice env ui opts s)) =
        asked s @
        [(\<lparr>Prompt = ChoiceOpts.Label opts,
           Choices = map (\<lambda>(j, opt). \<lparr>Display = opt, Value = int j\<rparr>)
                       (enumerate 0 (ChoiceOpts.Choices opts))\<rparr>,
          TInt (ChoiceOpts.DefaultValue opts))])
   \<and> (\<not> (0 \<le> (1::int) \<and> (1::int) < int (length [''1''])) \<and>
      asked (snd (WriterUI_AskForChoice env ui
        \<lparr>ChoiceOpts.Label = label, Default = dflt, DefaultValue = 1,
         Choices = [''1''], ValidateFunc = vf\<rparr> s)) =
        asked s @ [(\<lparr>Prompt = label, Choices = [\<lparr>Display = ''1'', Value = 0\<rparr>]\<rparr>, TInt 1)])"
  by (auto simp add: WriterUI_AskForChoice_def AskForChoice_loop_eq Itoa_1 Resolve_at_int_def
      split: prod.splits option.splits)

theorem WriterUI_AskForChoice_default_not_bounded_witness:
  "Itoa 42 \<in> set [''yes'', ''42'']
   \<and> \<not> (0 \<le> (42::int) \<and> (42::int) < int (length [''yes'', ''42'']))
   \<and> asked (snd (WriterUI_AskForChoice plain_env (NewWriterUI 1 2 (Some 0))
        \<lparr>ChoiceOpts.Label = ''pick'', Default = 0, DefaultValue = 42,
         Choices = [''yes'', ''42''], ValidateFunc = None\<rparr> empty_world)) =
       [(\<lparr>Prompt = ''pick'',
          Choices = [\<lparr>Display = ''yes'', Value = 0\<rparr>, \<lparr>Display = ''42'', Value = 1\<rparr>]\<rparr>,
         TInt 42)]"
proof -
  let ?o = "\<lparr>ChoiceOpts.Label = ''pick'', Default = 0, DefaultValue = 42,
         Choices = [''yes'', ''42''], ValidateFunc = None\<rparr>"
  have h: "Itoa (ChoiceOpts.DefaultValue ?o) \<in> set (ChoiceOpts.Choices ?o)"
    by (simp add: Itoa_42)
  from h WriterUI_AskForChoice_default_not_bounded
           [where opts = ?o and env = plain_env and ui = "NewWriterUI 1 2 (Some 0)"
              and s = empty_world]
  show ?thesis
    by (simp add: Itoa_42 empty_world_def enumerate_eq_zip upt_rec)
qed

section \<open>Properties of WriterUI: output\<close>

text \<open>
  Claim C7, where it fails. The claim has the logger receive the offending payload
  together with the cause, and the call complete normally, for each of the seven output
  operations and every failure. First, when the table's \<open>Print\<close> fails in \<open>PrintTable\<close>,
  the logger is called with the error as its only argument: the table is not among the
  arguments. Second, when the instance was built with a nil logger and the write of
  \<open>PrintLinef\<close> fails, the call panics at the logger call, and no logger has received
  anything.
\<close>

theorem WriterUI_output_failure_not_always_logged:
  "Table_Print broken_env [ [''a''] ] (outWriter (NewWriterUI 1 2 (Some 0))) empty_world =
     (Some (errorString ''closed pipe''), empty_world)
   \<and> logged (snd (WriterUI_PrintTable broken_env (NewWriterUI 1 2 (Some 0)) [ [''a''] ]
        empty_world)) =
     [\<lparr>log_logger = 0, log_tag = ''ui'', log_msg = ''UI.PrintTable failed: %s'',
       log_args = [VError (errorString ''closed pipe'')]\<rparr>]
   \<and> VTable [ [''a''] ] \<notin>
       set (log_args (last (logged (snd
         (WriterUI_PrintTable broken_env (NewWriterUI 1 2 (Some 0)) [ [''a''] ]
            empty_world)))))
   \<and> logger (NewWriterUI 1 2 None) = None
   \<and> write_fault broken_env (outWriter (NewWriterUI 1 2 None)) (''hello'' @ [CHR 0x0A])
        empty_world = Some (0, errorString ''closed pipe'')
   \<and> fst (WriterUI_PrintLinef broken_env (NewWriterUI 1 2 None) ''hello'' [] empty_world) =
       Panics ''runtime error: invalid memory address or nil pointer dereference''
   \<and> logged (snd (WriterUI_PrintLinef broken_env (NewWriterUI 1 2 None) ''hello'' []
        empty_world)) = []"
  by (simp add: WriterUI_PrintTable_def WriterUI_PrintLinef_def Fprintln_def Write_def
      broken_env_def plain_env_def empty_world_def NewWriterUI_def logger_Error_def)

text \<open>
  Claim C7, as amended. No output operation of \<open>WriterUI\<close> has an error among its
  results. For an instance whose logger is not nil: when the write of \<open>ErrorLinef\<close>,
  \<open>PrintLinef\<close>, \<open>EndLinef\<close>, \<open>BeginLinef\<close>, \<open>PrintBlock\<close> or \<open>PrintErrorBlock\<close> fails,
  the call returns normally and the logger has received one more call, under the
  instance's tag, whose arguments are the message (for the block operations, the block)
  and the error of the write; when the table's \<open>Print\<close> fails in \<open>PrintTable\<close>, the call
  returns normally and the logger has received one more call, whose only argument is the
  error of the rendering.
\<close>

theorem WriterUI_output_failure_logged:
  "logger ui = Some lg \<Longrightarrow>
   (write_fault env (errWriter ui) (Sprintf env pattern args @ [CHR 0x0A]) s = Some (n1, e1) \<longrightarrow>
      fst (WriterUI_ErrorLinef env ui pattern args s) = Returns ()
      \<and> logged (snd (WriterUI_ErrorLinef env ui pattern args s)) =
        logged s @
        [\<lparr>log_logger = lg, log_tag = logTag ui,
          log_msg = ''UI.ErrorLinef failed (message='%s'): %s'',
          log_args = [VString (Sprintf env pattern args), VError e1]\<rparr>])
   \<and> (write_fault env (outWriter ui) (Sprintf env pattern args @ [CHR 0x0A]) s = Some (n2, e2) \<longrightarrow>
      fst (WriterUI_PrintLinef env ui pattern args s) = Returns ()
      \<and> logged (snd (WriterUI_PrintLinef env ui pattern args s)) =
        logged s @
        [\<lparr>log_logger = lg, log_tag = logTag ui,
          log_msg = ''UI.PrintLinef failed (message='%s'): %s'',
          log_args = [VString (Sprintf env pattern args), VError e2]\<rparr>]
      \<and> fst (WriterUI_EndLinef env ui pattern args s) = Returns ()
      \<and> logged (snd (WriterUI_EndLinef env ui pattern args s)) =
        logged s @
        [\<lparr>log_logger = lg, log_tag = logTag ui,
          log_msg = ''UI.EndLinef failed (message='%s'): %s'',
          log_args = [VString (Sprintf env pattern args), VError e2]\<rparr>])
   \<and> (write_fault env (outWriter ui) (Sprintf env pattern args) s = Some (n3, e3) \<longrightarrow>
      fst (WriterUI_BeginLinef env ui pattern args s) = Returns ()
      \<and> logged (snd (WriterUI_BeginLinef env ui pattern args s)) =
        logged s @
        [\<lparr>log_logger = lg, log_tag = logTag ui,
          log_msg = ''UI.BeginLinef failed (message='%s'): %s'',
          log_args = [VString (Sprintf env pattern args), VError e3]\<rparr>])
   \<and> (write_fault env (outWriter ui) block s = Some (n4, e4) \<longrightarrow>
      fst (WriterUI_PrintBlock env ui block s) = Returns ()
      \<and> logged (snd (WriterUI_PrintBlock env ui block s)) =
        logged s @
        [\<lparr>log_logger = lg, log_tag = logTag ui,
          log_msg = ''UI.PrintBlock failed (message='%s'): %s'',
          log_args = [VBytes block, VError e4]\<rparr>]
      \<and> fst (WriterUI_PrintErrorBlock env ui block s) = Returns ()
      \<and> logged (snd (WriterUI_PrintErrorBlock env ui block s)) =
        logged s @
        [\<lparr>log_logger = lg, log_tag = logTag ui,
          log_msg = ''UI.PrintErrorBlock failed (message='%s'): %s'',
          log_args = [VString block, VError e4]\<rparr>])
   \<and> (Table_Print env table (outWriter ui) s = (Some e5, s5) \<longrightarrow>
      fst (WriterUI_PrintTable env ui table s) = Returns ()
      \<and> logged (snd (WriterUI_PrintTable env ui table s)) =
        logged s5 @
        [\<lparr>log_logger = lg, log_tag = logTag ui,
          log_msg = ''UI.PrintTable failed: %s'', log_args = [VError e5]\<rparr>])"
  by (simp add: WriterUI_ErrorLinef_def WriterUI_PrintLinef_def WriterUI_EndLinef_def
      WriterUI_BeginLinef_def WriterUI_PrintBlock_def WriterUI_PrintErrorBlock_def
      WriterUI_PrintTable_def Fprintln_def Fprint_def Write_def logger_Error_def Let_def)

theorem WriterUI_output_failure_logged_witness:
  "logger (NewWriterUI 1 2 (Some 0)) = Some 0
   \<and> write_fault broken_env (errWriter (NewWriterUI 1 2 (Some 0))) (''hello'' @ [CHR 0x0A])
       empty_world = Some (0, errorString ''closed pipe'')
   \<and> write_fault broken_env (outWriter (NewWriterUI 1 2 (Some 0))) (''hello'' @ [CHR 0x0A])
       empty_world = Some (0, errorString ''closed pipe'')
   \<and> write_fault broken_env (outWriter (NewWriterUI 1 2 (Some 0))) ''hello'' empty_world
     = Some (0, errorString ''closed pipe'')
   \<and> write_fault broken_env (outWriter (NewWriterUI 1 2 (Some 0))) ''data'' empty_world
     = Some (0, errorString ''closed pipe'')
   \<and> Table_Print broken_env [ [''a''] ] (outWriter (NewWriterUI 1 2 (Some 0))) empty_world
     = (Some (errorString ''closed pipe''), empty_world)
   \<and> fst (WriterUI_ErrorLinef broken_env (NewWriterUI 1 2 (Some 0)) ''hello'' [] empty_world)
     = Returns ()
   \<and> logged (snd (WriterUI_ErrorLinef broken_env (NewWriterUI 1 2 (Some 0)) ''hello'' []
        empty_world)) =
     [\<lparr>log_logger = 0, log_tag = ''ui'',
       log_msg = ''UI.ErrorLinef failed (message='%s'): %s'',
       log_args = [VString ''hello'', VError (errorString ''closed pipe'')]\<rparr>]
   \<and> fst (WriterUI_PrintLinef broken_env (NewWriterUI 1 2 (Some 0)) ''hello'' [] empty_world)
     = Returns ()
   \<and> logged (snd (WriterUI_PrintLinef broken_env (NewWriterUI 1 2 (Some 0)) ''hello'' []
        empty_world)) =
     [\<lparr>log_logger = 0, log_tag = ''ui'',
       log_msg = ''UI.PrintLinef failed (message='%s'): %s'',
       log_args = [VString ''hello'', VError (errorString ''closed pipe'')]\<rparr>]
   \<and> fst (WriterUI_EndLinef broken_env (NewWriterUI 1 2 (Some 0)) ''hello'' [] empty_world)
     = Returns ()
   \<and> logged (snd (WriterUI_EndLinef broken_env (NewWriterUI 1 2 (Some 0)) ''hello'' []
        empty_world)) =
     [\<lparr>log_logger = 0, log_tag = ''ui'',
       log_msg = ''UI.EndLinef failed (message='%s'): %s'',
       log_args = [VString ''hello'', VError (errorString ''closed pipe'')]\<rparr>]
   \<and> fst (WriterUI_BeginLinef broken_env (NewWriterUI 1 2 (Some 0)) ''hello'' [] empty_world)
     = Returns ()
   \<and> logged (snd (WriterUI_BeginLinef broken_env (NewWriterUI 1 2 (Some 0)) ''hello'' []
        empty_world)) =
     [\<lparr>log_logger = 0, log_tag = ''ui'',
       log_msg = ''UI.BeginLinef failed (message='%s'): %s'',
       log_args = [VString ''hello'', VError (errorString ''closed pipe'')]\<rparr>]
   \<and> fst (WriterUI_PrintBlock broken_env (NewWriterUI 1 2 (Some 0)) ''data'' empty_world)
     = Returns ()
   \<and> logged (snd (WriterUI_PrintBlock broken_env (NewWriterUI 1 2 (Some 0)) ''data''
        empty_world)) =
     [\<lparr>log_logger = 0, log_tag = ''ui'',
       log_msg = ''UI.PrintBlock failed (message='%s'): %s'',
       log_args = [VBytes ''data'', VError (errorString ''closed pipe'')]\<rparr>]
   \<and> fst (WriterUI_PrintErrorBlock broken_env (NewWriterUI 1 2 (Some 0)) ''data'' empty_world)
     = Returns ()
   \<and> logged (snd (WriterUI_PrintErrorBlock broken_env (NewWriterUI 1 2 (Some 0)) ''data''
        empty_world)) =
     [\<lparr>log_logger = 0, log_tag = ''ui'',
       log_msg = ''UI.PrintErrorBlock failed (message='%s'): %s'',
       log_args = [VString ''data'', VError (errorString ''closed pipe'')]\<rparr>]
   \<and> fst (WriterUI_PrintTable broken_env (NewWriterUI 1 2 (Some 0)) [ [''a''] ] empty_world)
     = Returns ()
   \<and> logged (snd (WriterUI_PrintTable broken_env (NewWriterUI 1 2 (Some 0)) [ [''a''] ]
        empty_world)) =
     [\<lparr>log_logger = 0, log_tag = ''ui'', log_msg = ''UI.PrintTable failed: %s'',
       log_args = [VError (errorString ''closed pipe'')]\<rparr>]"
proof -
  have g: "logger (NewWriterUI 1 2 (Some 0)) = Some 0"
    by (simp add: NewWriterUI_def)
  have f: "write_fault broken_env w p s = Some (0, errorString ''closed pipe'')" for w p s
    by (simp add: broken_env_def)
  have t: "Table_Print broken_env [ [''a''] ] (outWriter (NewWriterUI 1 2 (Some 0)))
             empty_world = (Some (errorString ''closed pipe''), empty_world)"
    by (simp add: broken_env_def)
  have p: "Sprintf broken_env ''hello'' [] = ''hello''"
    by (simp add: broken_env_def plain_env_def)
  have u: "logTag (NewWriterUI 1 2 (Some 0)) = ''ui''"
    by (simp add: NewWriterUI_def)
  have l: "logged empty_world = []"
    by (simp add: empty_world_def)
  from WriterUI_output_failure_logged
        [OF g, where env = broken_env and pattern = "''hello''"
           and args = "[]" and block = "''data''" and table = "[ [''a''] ]"
           and s = empty_world
           and ?n1.0 = 0 and ?e1.0 = "errorString ''closed pipe''"
           and ?n2.0 = 0 and ?e2.0 = "errorString ''closed pipe''"
           and ?n3.0 = 0 and ?e3.0 = "errorString ''closed pipe''"
           and ?n4.0 = 0 and ?e4.0 = "errorString ''closed pipe''"
           and ?e5.0 = "errorString ''closed pipe''" and ?s5.0 = empty_world]
  show ?thesis
    unfolding p by (simp only: g f t u l append_Nil simp_thms)
qed

text \<open>
  Claim C8. For every text, \<open>PrintErrorBlock\<close> hands the text as it is to the normal
  output writer, which accepts all of it, or a prefix when the write fails. An error
  writer that is not the output writer receives nothing. The streams after
  \<open>PrintErrorBlock\<close> are the streams after \<open>PrintBlock\<close> of the same bytes, and
  \<open>PrintLinef\<close> leaves the streams that \<open>PrintErrorBlock\<close> of the formatted line does:
  all three write to the same stream. This holds whether the call returns or panics.
\<close>

theorem WriterUI_PrintErrorBlock_writes_outWriter:
  "streams (snd (WriterUI_PrintErrorBlock env ui block s)) (outWriter ui) =
     streams s (outWriter ui) @
       (case write_fault env (outWriter ui) block s of
          None \<Rightarrow> block | Some (n, e) \<Rightarrow> take n block)
   \<and> (errWriter ui \<noteq> outWriter ui \<longrightarrow>
        streams (snd (WriterUI_PrintErrorBlock env ui block s)) (errWriter ui) =
          streams s (errWriter ui))
   \<and> streams (snd (WriterUI_PrintErrorBlock env ui block s)) =
       streams (snd (WriterUI_PrintBlock env ui block s))
   \<and> streams (snd (WriterUI_PrintLinef env ui pattern args s)) =
       streams (snd (WriterUI_PrintErrorBlock env ui
                       (Sprintf env pattern args @ [CHR 0x0A]) s))"
  by (auto simp add: WriterUI_PrintErrorBlock_def WriterUI_PrintBlock_def
      WriterUI_PrintLinef_def Fprint_def Fprintln_def Write_def logger_Error_def Let_def
      split: option.splits prod.splits)

theorem WriterUI_PrintErrorBlock_writes_outWriter_witness:
  "errWriter (NewWriterUI 1 2 (Some 0)) \<noteq> outWriter (NewWriterUI 1 2 (Some 0))
   \<and> streams (snd (WriterUI_PrintErrorBlock plain_env (NewWriterUI 1 2 (Some 0)) ''oops''
        empty_world)) (outWriter (NewWriterUI 1 2 (Some 0))) = ''oops''
   \<and> streams (snd (WriterUI_PrintErrorBlock plain_env (NewWriterUI 1 2 (Some 0)) ''oops''
        empty_world)) (errWriter (NewWriterUI 1 2 (Some 0))) = []"
proof -
  have h: "errWriter (NewWriterUI 1 2 (Some 0)) \<noteq> outWriter (NewWriterUI 1 2 (Some 0))"
    by (simp add: NewWriterUI_def)
  have f: "write_fault plain_env w p s = None" for w p s
    by (simp add: plain_env_def)
  have e: "streams empty_world w = []" for w
    by (simp add: empty_world_def)
  note c = WriterUI_PrintErrorBlock_writes_outWriter
             [where env = plain_env and ui = "NewWriterUI 1 2 (Some 0)"
                and block = "''oops''" and s = empty_world]
  from h c [THEN conjunct1] c [THEN conjunct2, THEN conjunct1]
  show ?thesis
    by (simp add: f e)
qed

end
